theory Spec2Isabelle
  imports Complex_Main
begin

section \<open>Numbers, points and the random source\<close>

text \<open>
  The program is TypeScript. Its \<^verbatim>\<open>number\<close> values are modelled as mathematical
  reals: rounding, infinities and NaN of the double format are outside the model.
  \<^verbatim>\<open>Math.random()\<close> is the only source of nondeterminism of the shape generators
  and of the particle update; it is modelled as a fixed sequence \<open>rnd\<close> of draws
  together with the index of the next draw, which the code advances by one with every
  call.  The library promises draws in the half-open unit interval, which is the
  predicate \<open>unit_draws\<close>.
\<close>

type_synonym rng = "nat \<Rightarrow> real"

definition unit_draws :: "rng \<Rightarrow> bool" where
  "unit_draws rnd = (\<forall>k. 0 \<le> rnd k \<and> rnd k < 1)"

text \<open>\<^verbatim>\<open>interface Point3D { x: number; y: number; z: number }\<close> of \<^verbatim>\<open>types.ts\<close>.
  The fields carry the prefix \<open>p\<close> so that \<open>x\<close>, \<open>y\<close> and \<open>z\<close> stay free
  for variables.\<close>

record Point3D =
  px :: real
  py :: real
  pz :: real

definition origin_dist :: "Point3D \<Rightarrow> real" where
  "origin_dist p = sqrt (px p * px p + py p * py p + pz p * pz p)"

section \<open>Shape generators (\<^verbatim>\<open>utils/geometry.ts\<close>)\<close>

text \<open>
  Every generator is a loop \<^verbatim>\<open>for (let i = 0; i < count; i++)\<close> over a \<^verbatim>\<open>number\<close>
  \<open>count\<close> that pushes one point per round.  The loop counter \<open>i\<close> is a natural
  number, \<open>count\<close> a real, \<open>k\<close> the index of the next random draw and \<open>points\<close>
  the array built so far.
\<close>

subsection \<open>Sphere\<close>

definition spherePoint :: "rng \<Rightarrow> nat \<Rightarrow> Point3D" where
  "spherePoint rnd k =
     (let theta = rnd k * 2 * pi;
          phi = arccos (2 * rnd (k + 1) - 1);
          r = 1.2
      in \<lparr> px = r * sin phi * cos theta,
           py = r * sin phi * sin theta,
           pz = r * cos phi \<rparr>)"

function sphere_loop :: "real \<Rightarrow> rng \<Rightarrow> nat \<Rightarrow> nat \<Rightarrow> Point3D list \<Rightarrow> Point3D list" where
  "sphere_loop count rnd i k points =
     (if real i < count
      then sphere_loop count rnd (Suc i) (k + 2) (points @ [spherePoint rnd k])
      else points)"
  by pat_completeness auto
termination
  by (relation "measure (\<lambda>(count, rnd, i, k, points). nat \<lceil>count\<rceil> - i)") (auto, linarith)

declare sphere_loop.simps [simp del]

definition generateSphere :: "real \<Rightarrow> rng \<Rightarrow> Point3D list" where
  "generateSphere count rnd = sphere_loop count rnd 0 0 []"

subsection \<open>Cube\<close>

definition cubePoint :: "rng \<Rightarrow> nat \<Rightarrow> Point3D" where
  "cubePoint rnd k =
     (let axis = \<lfloor>rnd k * 3\<rfloor>;
          sign = (if rnd (k + 1) < 0.5 then - 1 else 1 :: real);
          p = \<lparr> px = (rnd (k + 2) * 2 - 1) * 1.2,
                py = (rnd (k + 3) * 2 - 1) * 1.2,
                pz = (rnd (k + 4) * 2 - 1) * 1.2 \<rparr>
      in if axis = 0 then p\<lparr> px := sign * 1.2 \<rparr>
         else if axis = 1 then p\<lparr> py := sign * 1.2 \<rparr>
         else p\<lparr> pz := sign * 1.2 \<rparr>)"

function cube_loop :: "real \<Rightarrow> rng \<Rightarrow> nat \<Rightarrow> nat \<Rightarrow> Point3D list \<Rightarrow> Point3D list" where
  "cube_loop count rnd i k points =
     (if real i < count
      then cube_loop count rnd (Suc i) (k + 5) (points @ [cubePoint rnd k])
      else points)"
  by pat_completeness auto
termination
  by (relation "measure (\<lambda>(count, rnd, i, k, points). nat \<lceil>count\<rceil> - i)") (auto, linarith)

declare cube_loop.simps [simp del]

definition generateCube :: "real \<Rightarrow> rng \<Rightarrow> Point3D list" where
  "generateCube count rnd = cube_loop count rnd 0 0 []"

subsection \<open>Bottle\<close>

text \<open>
  The radius profile of \<^verbatim>\<open>generateBottle\<close>: the \<^verbatim>\<open>if\<close> chain on the normalised
  height \<open>y\<close>.  Only the first branch (the base disk) draws a random number, so the
  chain returns the radius together with the index of the next draw.
\<close>

definition bottleRadius :: "rng \<Rightarrow> nat \<Rightarrow> real \<Rightarrow> real \<times> nat" where
  "bottleRadius rnd k y =
     (if y < 0.05 then (sqrt (rnd k) * 0.8, k + 1)
      else if y < 0.6 then (0.8, k)
      else if y < 0.7 then
        (let t = (y - 0.6) / 0.1 in (0.8 * (1 - t) + 0.3 * t, k))
      else if y < 0.95 then (0.3, k)
      else (0.35, k))"

definition bottleHeight :: "rng \<Rightarrow> nat \<Rightarrow> real" where
  "bottleHeight rnd k = (let h = rnd k * 3 - 1.0 in (h + 1) / 2.5)"

definition bottlePoint :: "rng \<Rightarrow> nat \<Rightarrow> Point3D \<times> nat" where
  "bottlePoint rnd k =
     (let y = bottleHeight rnd k;
          theta = rnd (k + 1) * 2 * pi;
          (r, k') = bottleRadius rnd (k + 2) y
      in (\<lparr> px = r * cos theta,
            py = (y * 3.5) - 1.5,
            pz = r * sin theta \<rparr>, k'))"

function bottle_loop :: "real \<Rightarrow> rng \<Rightarrow> nat \<Rightarrow> nat \<Rightarrow> Point3D list \<Rightarrow> Point3D list" where
  "bottle_loop count rnd i k points =
     (if real i < count
      then (case bottlePoint rnd k of
              (p, k') \<Rightarrow> bottle_loop count rnd (Suc i) k' (points @ [p]))
      else points)"
  by pat_completeness auto
termination
  by (relation "measure (\<lambda>(count, rnd, i, k, points). nat \<lceil>count\<rceil> - i)") (auto, linarith)

declare bottle_loop.simps [simp del]

definition generateBottle :: "real \<Rightarrow> rng \<Rightarrow> Point3D list" where
  "generateBottle count rnd = bottle_loop count rnd 0 0 []"

section \<open>Gesture extractor (\<^verbatim>\<open>predictWebcam\<close> of the hand controller)\<close>

text \<open>\<^verbatim>\<open>interface HandData { isOpen: boolean; openness: number; detected: boolean }\<close>\<close>

record HandData =
  isOpen :: bool
  openness :: real
  detected :: bool

text \<open>A landmark of the hand tracker: a point \<^verbatim>\<open>{x, y, z}\<close> in normalised image
  coordinates.\<close>

record Landmark =
  lx :: real
  ly :: real
  lz :: real

text \<open>Exceptions of the JavaScript runtime and of the program, as values.  \<open>Error msg\<close>
  is \<^verbatim>\<open>new Error(msg)\<close>; \<open>Thrown msg\<close> is whatever a collaborator outside this
  repository threw.\<close>

datatype js_error = TypeError | SyntaxError | Error string | Thrown string

definition tips :: "nat list" where
  "tips = [4, 8, 12, 16, 20]"

definition tipDist :: "Landmark \<Rightarrow> Landmark \<Rightarrow> real" where
  "tipDist wrist tip =
     (let dx = lx tip - lx wrist;
          dy = ly tip - ly wrist;
          dz = lz tip - lz wrist
      in sqrt (dx * dx + dy * dy + dz * dz))"

text \<open>\<^verbatim>\<open>tips.forEach(idx => { ...; avgDist += Math.sqrt(...) })\<close>.  Reading the
  field of a landmark that the array does not hold is a \<^verbatim>\<open>TypeError\<close>.\<close>

fun tipsForEach :: "Landmark list \<Rightarrow> Landmark \<Rightarrow> nat list \<Rightarrow> real \<Rightarrow> js_error + real" where
  "tipsForEach landmarks wrist [] avgDist = Inr avgDist"
| "tipsForEach landmarks wrist (idx # rest) avgDist =
     (if idx < length landmarks
      then tipsForEach landmarks wrist rest (avgDist + tipDist wrist (landmarks ! idx))
      else Inl TypeError)"

definition handState :: "Landmark list \<Rightarrow> js_error + HandData" where
  "handState landmarks =
     (case landmarks of
        [] \<Rightarrow> Inl TypeError
      | wrist # _ \<Rightarrow>
          (case tipsForEach landmarks wrist tips 0 of
             Inl e \<Rightarrow> Inl e
           | Inr summed \<Rightarrow>
               (let avgDist = summed / 5;
                    minVal = 0.15;
                    maxVal = 0.45;
                    opn = (avgDist - minVal) / (maxVal - minVal);
                    opn = max 0 (min 1 opn)
                in Inr \<lparr> isOpen = opn > 0.5, openness = opn, detected = True \<rparr>)))"



text \<open>The contract in the words of the specification: the mean distance from the wrist
  (landmark 0) to the five finger tips, rescaled from \<open>[0.15, 0.45]\<close> to \<open>[0, 1]\<close> and
  clamped.\<close>

definition avgTipDistance :: "Landmark list \<Rightarrow> real" where
  "avgTipDistance landmarks =
     (\<Sum>idx \<leftarrow> tips. tipDist (landmarks ! 0) (landmarks ! idx)) / 5"

definition rescaleClamp :: "real \<Rightarrow> real" where
  "rescaleClamp d = max 0 (min 1 ((d - 0.15) / (0.45 - 0.15)))"

text \<open>A hand of 21 landmarks whose five finger tips lie \<open>(0.13, 0.26, 0.26)\<close> away
  from the wrist, \<open>0.26\<close> of it in depth, that is at distance \<open>0.39\<close>.\<close>

definition sampleHand :: "Landmark list" where
  "sampleHand =
     (let w = \<lparr> lx = 1 / 2, ly = 1 / 2, lz = 0 \<rparr>;
          t = \<lparr> lx = 63 / 100, ly = 19 / 25, lz = 13 / 50 \<rparr>
      in [w, w, w, w, t, w, w, w, t, w, w, w, t, w, w, w, t, w, w, w, t])"

section \<open>Particle simulation (\<^verbatim>\<open>useFrame\<close> of \<^verbatim>\<open>ParticleScene.tsx\<close>)\<close>

definition PARTICLE_COUNT :: nat where
  "PARTICLE_COUNT = 4000"

definition DAMPING_FACTOR :: real where
  "DAMPING_FACTOR = 0.06"

definition EXPLOSION_SCALE :: real where
  "EXPLOSION_SCALE = 6.0"

definition activeOpenness :: "bool \<Rightarrow> real \<Rightarrow> real" where
  "activeOpenness handDetected handOpenness = (if handDetected then handOpenness else 0)"

definition breathe :: "bool \<Rightarrow> real \<Rightarrow> real" where
  "breathe handDetected time = (if handDetected then 0 else sin (time * 1.5) * 0.05)"

definition targetIndex :: "Point3D list \<Rightarrow> nat \<Rightarrow> nat" where
  "targetIndex targetPoints i =
     i mod (if length targetPoints = 0 then 1 else length targetPoints)"

definition rawTarget :: "Point3D list \<Rightarrow> nat \<Rightarrow> Point3D" where
  "rawTarget targetPoints i =
     (if length targetPoints > 0 then targetPoints ! targetIndex targetPoints i
      else \<lparr> px = 0, py = 0, pz = 0 \<rparr>)"

definition jitterTarget :: "rng \<Rightarrow> nat \<Rightarrow> Point3D \<Rightarrow> Point3D" where
  "jitterTarget rnd k raw =
     (let jitter = 0.02
      in \<lparr> px = px raw + (rnd k - 0.5) * jitter,
           py = py raw + (rnd (k + 1) - 0.5) * jitter,
           pz = pz raw + (rnd (k + 2) - 0.5) * jitter \<rparr>)"

definition scaledTarget :: "Point3D \<Rightarrow> real \<Rightarrow> real \<times> real \<times> real" where
  "scaledTarget target br =
     (let baseScale = 1.8
      in (px target * baseScale * (1 + br),
          py target * baseScale * (1 + br),
          pz target * baseScale * (1 + br)))"

definition centreLen :: "real \<times> real \<times> real \<Rightarrow> real" where
  "centreLen t = (case t of (tx, ty, tz) \<Rightarrow> sqrt (tx * tx + ty * ty + tz * tz) + 0.001)"

text \<open>\<^verbatim>\<open>Math.pow(activeOpenness, 1.5)\<close> is \<open>powr\<close> on the non-negative reals, the
  range of an openness; for a negative base JavaScript yields NaN, which the model does
  not have.\<close>

definition explosionForce :: "real \<Rightarrow> real" where
  "explosionForce ao = ao powr 1.5 * EXPLOSION_SCALE"

text \<open>The instantaneous goal \<open>(tx, ty, tz)\<close> of particle \<open>i\<close>, whose three jitter
  draws start at index \<open>k\<close>.\<close>

definition particleGoal ::
  "Point3D list \<Rightarrow> real \<Rightarrow> bool \<Rightarrow> real \<Rightarrow> rng \<Rightarrow> nat \<Rightarrow> nat \<Rightarrow> real \<times> real \<times> real" where
  "particleGoal targetPoints handOpenness handDetected time rnd k i =
     (let ao = activeOpenness handDetected handOpenness;
          br = breathe handDetected time;
          target = jitterTarget rnd k (rawTarget targetPoints i);
          noiseX = sin (time * 2 + real i * 0.1) * 0.5;
          noiseY = cos (time * 1.5 + real i * 0.1) * 0.5;
          noiseZ = sin (time + real i * 0.1) * 0.5;
          (tx, ty, tz) = scaledTarget target br;
          len = centreLen (tx, ty, tz);
          dirX = tx / len;
          dirY = ty / len;
          dirZ = tz / len;
          force = explosionForce ao
      in (tx + (dirX * force) + (noiseX * ao * 2.5),
          ty + (dirY * force) + (noiseY * ao * 2.5),
          tz + (dirZ * force) + (noiseZ * ao * 2.5)))"

text \<open>\<^verbatim>\<open>positions[j] += (t - positions[j]) * DAMPING_FACTOR\<close> on the position buffer,
  a typed array of \<open>3 * PARTICLE_COUNT\<close> numbers.\<close>

definition lerpAt :: "real list \<Rightarrow> nat \<Rightarrow> real \<Rightarrow> real list" where
  "lerpAt positions j t = positions[j := positions ! j + (t - positions ! j) * DAMPING_FACTOR]"

definition moveParticle :: "real list \<Rightarrow> nat \<Rightarrow> real \<times> real \<times> real \<Rightarrow> real list" where
  "moveParticle positions i goal =
     (case goal of (tx, ty, tz) \<Rightarrow>
        (let i3 = i * 3;
             positions = lerpAt positions i3 tx;
             positions = lerpAt positions (i3 + 1) ty;
             positions = lerpAt positions (i3 + 2) tz
         in positions))"

function particles_loop ::
  "Point3D list \<Rightarrow> real \<Rightarrow> bool \<Rightarrow> real \<Rightarrow> rng \<Rightarrow> nat \<Rightarrow> real list \<Rightarrow> real list" where
  "particles_loop targetPoints handOpenness handDetected time rnd i positions =
     (if i < PARTICLE_COUNT
      then particles_loop targetPoints handOpenness handDetected time rnd (Suc i)
             (moveParticle positions i
                (particleGoal targetPoints handOpenness handDetected time rnd (3 * i) i))
      else positions)"
  by pat_completeness auto
termination
  by (relation "measure (\<lambda>(tp, ho, hd, time, rnd, i, positions). PARTICLE_COUNT - i)") auto

declare particles_loop.simps [simp del]

text \<open>The mesh: the position buffer and the two rotation angles the frame callback
  writes.\<close>

record Mesh =
  positionArray :: "real list"
  rotationY :: real
  rotationZ :: real

definition useFrame ::
  "Point3D list \<Rightarrow> real \<Rightarrow> bool \<Rightarrow> real \<Rightarrow> rng \<Rightarrow> Mesh option \<Rightarrow> Mesh option" where
  "useFrame targetPoints handOpenness handDetected time rnd meshRef =
     (case meshRef of
        None \<Rightarrow> None
      | Some mesh \<Rightarrow>
          (let ao = activeOpenness handDetected handOpenness;
               rotationSpeed = 0.001 + (ao * 0.005)
           in Some \<lparr> positionArray =
                        particles_loop targetPoints handOpenness handDetected time rnd 0
                          (positionArray mesh),
                      rotationY = rotationY mesh + rotationSpeed,
                      rotationZ = sin (time * 0.2) * 0.1 \<rparr>))"

section \<open>Audio parameter mapper (\<^verbatim>\<open>AudioController.tsx\<close>)\<close>

definition audioIntensity :: "bool \<Rightarrow> real \<Rightarrow> real" where
  "audioIntensity handDetected handOpenness = (if handDetected then handOpenness else 0.1)"

definition targetFreq :: "real \<Rightarrow> real" where
  "targetFreq intensity =
     (let minFreq = 150; maxFreq = 6000
      in minFreq + intensity ^ 2 * (maxFreq - minFreq))"

definition targetVol :: "real \<Rightarrow> real" where
  "targetVol intensity =
     (let minVol = 0.3; maxVol = 0.6
      in minVol + (intensity * (maxVol - minVol)))"

text \<open>
  The reactive effect.  \<open>engineReady\<close> says that the audio context, the filter and the
  master gain exist; otherwise the effect returns at once.  Its result is the pair of
  calls \<^verbatim>\<open>setTargetAtTime(target, now, 0.1)\<close> on the filter frequency and on the master
  gain, each as (target, time constant).
\<close>

definition modulateSound :: "bool \<Rightarrow> bool \<Rightarrow> real \<Rightarrow> ((real \<times> real) \<times> (real \<times> real)) option" where
  "modulateSound engineReady handDetected handOpenness =
     (if \<not> engineReady then None
      else (let intensity = audioIntensity handDetected handOpenness
            in Some ((targetFreq intensity, 0.1), (targetVol intensity, 0.1))))"

section \<open>Remote shape generation (\<^verbatim>\<open>services/geminiService.ts\<close>)\<close>

text \<open>A JSON value as \<^verbatim>\<open>JSON.parse\<close> returns it; an object is the list of its members,
  each key once.\<close>

datatype json =
    JNull
  | JBool bool
  | JNum real
  | JStr string
  | JArr "json list"
  | JObj "(string \<times> json) list"

fun truthy :: "json \<Rightarrow> bool" where
  "truthy JNull = False"
| "truthy (JBool b) = b"
| "truthy (JNum n) = (n \<noteq> 0)"
| "truthy (JStr s) = (s \<noteq> [])"
| "truthy (JArr _) = True"
| "truthy (JObj _) = True"

text \<open>\<^verbatim>\<open>parsed.points\<close>: a \<^verbatim>\<open>TypeError\<close> on \<^verbatim>\<open>null\<close>, the member of an object if it
  has one, and \<^verbatim>\<open>undefined\<close> (\<open>None\<close>) otherwise.\<close>

fun pointsOf :: "json \<Rightarrow> js_error + json option" where
  "pointsOf JNull = Inl TypeError"
| "pointsOf (JObj members) = Inr (map_of members ''points'')"
| "pointsOf _ = Inr None"

text \<open>\<^verbatim>\<open>parsed.points || []\<close>\<close>

definition pointsOrEmpty :: "json option \<Rightarrow> json" where
  "pointsOrEmpty v = (case v of None \<Rightarrow> JArr [] | Some j \<Rightarrow> if truthy j then j else JArr [])"

text \<open>
  The outcome of \<^verbatim>\<open>await ai.models.generateContent(...)\<close>: the collaborator throws, or
  it answers with a response whose \<^verbatim>\<open>text\<close> may be undefined.
\<close>

datatype remote = Rejected js_error | Responded "string option"

text \<open>
  The body of the \<^verbatim>\<open>try\<close> block after the client exists, which the three versions
  of the file share up to the message of the empty-response error; the \<^verbatim>\<open>catch\<close>
  logs and rethrows, so every error leaves the function as it is.  \<open>parse\<close> is
  \<^verbatim>\<open>JSON.parse\<close>, with \<open>None\<close> for its \<^verbatim>\<open>SyntaxError\<close>.
\<close>

definition callModel :: "string \<Rightarrow> (string \<Rightarrow> json option) \<Rightarrow> remote \<Rightarrow> js_error + json" where
  "callModel emptyMsg parse outcome =
     (case outcome of
        Rejected e \<Rightarrow> Inl e
      | Responded jsonText \<Rightarrow>
          (if jsonText = None \<or> jsonText = Some [] then Inl (Error emptyMsg)
           else (case parse (the jsonText) of
                   None \<Rightarrow> Inl SyntaxError
                 | Some parsed \<Rightarrow>
                     (case pointsOf parsed of
                        Inl e \<Rightarrow> Inl e
                      | Inr v \<Rightarrow> Inr (pointsOrEmpty v)))))"

definition falsyKey :: "string option \<Rightarrow> bool" where
  "falsyKey apiKey = (apiKey = None \<or> apiKey = Some [])"

text \<open>First version in the file (lines 1 to 64): \<^verbatim>\<open>getAI\<close> throws inside the
  \<^verbatim>\<open>try\<close> block when \<^verbatim>\<open>process.env.API_KEY\<close> is missing.\<close>

definition generateShapePoints_getAI ::
  "string option \<Rightarrow> (string \<Rightarrow> json option) \<Rightarrow> remote \<Rightarrow> js_error + json" where
  "generateShapePoints_getAI apiKey parse outcome =
     (if falsyKey apiKey
      then Inl (Error ''API Key is missing. Please configure your environment variables.'')
      else callModel ''Empty response from Gemini'' parse outcome)"

text \<open>Second version (lines 64 to 131), the one whose error \<^verbatim>\<open>App.tsx\<close> looks for.\<close>

definition generateShapePoints ::
  "string option \<Rightarrow> (string \<Rightarrow> json option) \<Rightarrow> remote \<Rightarrow> js_error + json" where
  "generateShapePoints apiKey parse outcome =
     (if falsyKey apiKey then Inl (Error ''API_KEY_MISSING'')
      else callModel ''Empty response'' parse outcome)"

text \<open>Third version (lines 131 to 194): a missing key is a warning and an empty
  shape.\<close>

definition generateShapePoints_warn ::
  "string option \<Rightarrow> (string \<Rightarrow> json option) \<Rightarrow> remote \<Rightarrow> js_error + json" where
  "generateShapePoints_warn apiKey parse outcome =
     (if falsyKey apiKey then Inr (JArr [])
      else callModel ''Empty response from Gemini'' parse outcome)"

text \<open>
  A call has failed when the collaborator throws, when the response carries no text or
  an empty one, when the text is not JSON, or when it is the JSON value \<^verbatim>\<open>null\<close>.
\<close>

definition callFailed :: "(string \<Rightarrow> json option) \<Rightarrow> remote \<Rightarrow> bool" where
  "callFailed parse outcome =
     (case outcome of
        Rejected e \<Rightarrow> True
      | Responded None \<Rightarrow> True
      | Responded (Some jsonText) \<Rightarrow>
          jsonText = [] \<or> parse jsonText = None \<or> parse jsonText = Some JNull)"

text \<open>\<^verbatim>\<open>JSON.parse\<close> on the two texts \<^verbatim>\<open>{}\<close> and \<^verbatim>\<open>null\<close>, and a syntax error on
  every other text: enough of a parser to run the examples.\<close>

definition sampleParse :: "string \<Rightarrow> json option" where
  "sampleParse s =
     (if s = ''{}'' then Some (JObj []) else if s = ''null'' then Some JNull else None)"

section \<open>Properties of the shape generators\<close>

subsection \<open>The loops run \<open>\<lceil>count\<rceil>\<close> times\<close>

lemma loop_measure_step:
  "real i < count \<Longrightarrow> nat \<lceil>count\<rceil> - i = Suc (nat \<lceil>count\<rceil> - Suc i)"
  by linarith

lemma loop_measure_done: "\<not> real i < count \<Longrightarrow> nat \<lceil>count\<rceil> - i = 0"
  by linarith

lemma length_sphere_loop:
  "length (sphere_loop count rnd i k points) = length points + (nat \<lceil>count\<rceil> - i)"
proof (induction count rnd i k points rule: sphere_loop.induct)
  case (1 count rnd i k points)
  show ?case
  proof (cases "real i < count")
    case True
    then show ?thesis
      using "1.IH" by (subst sphere_loop.simps) (simp add: loop_measure_step)
  next
    case False
    then show ?thesis
      by (subst sphere_loop.simps) (simp add: loop_measure_done)
  qed
qed

lemma length_cube_loop:
  "length (cube_loop count rnd i k points) = length points + (nat \<lceil>count\<rceil> - i)"
proof (induction count rnd i k points rule: cube_loop.induct)
  case (1 count rnd i k points)
  show ?case
  proof (cases "real i < count")
    case True
    then show ?thesis
      using "1.IH" by (subst cube_loop.simps) (simp add: loop_measure_step)
  next
    case False
    then show ?thesis
      by (subst cube_loop.simps) (simp add: loop_measure_done)
  qed
qed

lemma length_bottle_loop:
  "length (bottle_loop count rnd i k points) = length points + (nat \<lceil>count\<rceil> - i)"
proof (induction count rnd i k points rule: bottle_loop.induct)
  case (1 count rnd i k points)
  show ?case
  proof (cases "real i < count")
    case True
    obtain p k' where pk: "bottlePoint rnd k = (p, k')"
      by (cases "bottlePoint rnd k")
    from True pk "1.IH" [OF True pk [symmetric]] show ?thesis
      by (subst bottle_loop.simps) (simp add: loop_measure_step)
  next
    case False
    then show ?thesis
      by (subst bottle_loop.simps) (simp add: loop_measure_done)
  qed
qed

subsection \<open>Every sphere point lies on the shell\<close>

lemma shell_algebra:
  fixes r sp cp st ct :: real
  shows "(r * sp * ct) * (r * sp * ct) + (r * sp * st) * (r * sp * st) + (r * cp) * (r * cp)
         = r * r * (sp * sp * (ct * ct + st * st) + cp * cp)"
  by (simp add: algebra_simps)

lemma sphere_norm:
  fixes r :: real
  shows "(r * sin phi * cos theta) * (r * sin phi * cos theta)
        + (r * sin phi * sin theta) * (r * sin phi * sin theta)
        + (r * cos phi) * (r * cos phi) = r * r"
proof -
  have A: "cos theta * cos theta + sin theta * sin theta = 1"
    by simp
  have B: "sin phi * sin phi + cos phi * cos phi = 1"
    by (simp add: add.commute)
  show ?thesis
    by (simp only: shell_algebra A B mult_1_right)
qed

lemma origin_dist_spherePoint: "origin_dist (spherePoint rnd k) = 1.2"
proof -
  have "origin_dist (spherePoint rnd k) = sqrt (1.2 * 1.2)"
    unfolding origin_dist_def spherePoint_def Let_def Point3D.select_convs
    by (simp only: sphere_norm)
  also have "\<dots> = \<bar>1.2\<bar>"
    by (simp only: real_sqrt_abs2)
  finally show ?thesis by simp
qed

lemma set_sphere_loop:
  "set (sphere_loop count rnd i k points) \<subseteq> set points \<union> range (spherePoint rnd)"
proof (induction count rnd i k points rule: sphere_loop.induct)
  case (1 count rnd i k points)
  show ?case
  proof (cases "real i < count")
    case True
    then show ?thesis
      using "1.IH" by (subst sphere_loop.simps) auto
  next
    case False
    then show ?thesis
      by (subst sphere_loop.simps) simp
  qed
qed

lemma generateSphere_one:
  "generateSphere 1 (\<lambda>k. 0) = [\<lparr> px = 0, py = 0, pz = - (6 / 5) \<rparr>]"
  by (simp add: generateSphere_def sphere_loop.simps spherePoint_def)

text \<open>
  Claim C9.  For every count \<open>N \<ge> 0\<close>, \<open>generateSphere\<close>, \<open>generateCube\<close> and
  \<open>generateBottle\<close> each return exactly \<open>N\<close> points, the count \<open>0\<close> gives the empty
  list, and every point of the sphere lies at distance \<open>1.2\<close> from the origin (exactly
  so over the reals).
\<close>

theorem generators_return_count_points:
  "length (generateSphere (real N) rnd) = N \<and>
   length (generateCube (real N) rnd) = N \<and>
   length (generateBottle (real N) rnd) = N \<and>
   generateSphere 0 rnd = [] \<and> generateCube 0 rnd = [] \<and> generateBottle 0 rnd = [] \<and>
   (\<forall>p \<in> set (generateSphere (real N) rnd). origin_dist p = 1.2)"
proof -
  have "\<forall>p \<in> set (generateSphere (real N) rnd). origin_dist p = 1.2"
    using set_sphere_loop [of "real N" rnd 0 0 "[]"]
    by (auto simp: generateSphere_def origin_dist_spherePoint)
  moreover have "generateSphere 0 rnd = []"
    unfolding generateSphere_def by (subst sphere_loop.simps) simp
  moreover have "generateCube 0 rnd = []"
    unfolding generateCube_def by (subst cube_loop.simps) simp
  moreover have "generateBottle 0 rnd = []"
    unfolding generateBottle_def by (subst bottle_loop.simps) simp
  ultimately show ?thesis
    by (simp add: generateSphere_def generateCube_def generateBottle_def
        length_sphere_loop length_cube_loop length_bottle_loop)
qed

theorem generators_return_count_points_witness:
  "\<lparr> px = 0, py = 0, pz = - (6 / 5) \<rparr> \<in> set (generateSphere (real (Suc 0)) (\<lambda>k. 0)) \<and>
   origin_dist \<lparr> px = 0, py = 0, pz = - (6 / 5) \<rparr> = 1.2 \<and>
   length (generateSphere (real (Suc 0)) (\<lambda>k. 0)) = Suc 0"
proof -
  have mem: "\<lparr> px = 0, py = 0, pz = - (6 / 5) \<rparr> \<in> set (generateSphere (real (Suc 0)) (\<lambda>k. 0))"
    by (simp add: generateSphere_one)
  with generators_return_count_points [of "Suc 0" "\<lambda>k. 0"] show ?thesis
    by simp
qed

subsection \<open>The radius profile of the bottle\<close>

lemma radius_near_shoulder_start:
  assumes "0.05 < y" "y < 0.7"
  shows "fst (bottleRadius rnd k y) = min 0.8 (3.8 - 5 * y)"
  using assms by (auto simp add: bottleRadius_def Let_def min_def field_simps)

lemma radius_near_shoulder_end:
  assumes "0.6 < y" "y < 0.95"
  shows "fst (bottleRadius rnd k y) = max 0.3 (3.8 - 5 * y)"
  using assms by (auto simp add: bottleRadius_def Let_def max_def field_simps)

lemma isCont_radius_shoulder_start: "isCont (\<lambda>y. fst (bottleRadius rnd k y)) 0.6"
proof -
  let ?g = "\<lambda>y::real. min 0.8 (3.8 - 5 * y)"
  have "eventually (\<lambda>y. y \<in> {0.05 <..< 0.7}) (nhds (0.6::real))"
    by (rule eventually_nhds_in_open) simp_all
  then have "eventually (\<lambda>y. fst (bottleRadius rnd k y) = ?g y) (nhds 0.6)"
    by (rule eventually_mono) (simp add: radius_near_shoulder_start)
  moreover have "isCont ?g 0.6"
    by (intro continuous_intros)
  ultimately show ?thesis
    by (simp only: isCont_cong)
qed

lemma isCont_radius_shoulder_end: "isCont (\<lambda>y. fst (bottleRadius rnd k y)) 0.7"
proof -
  let ?g = "\<lambda>y::real. max 0.3 (3.8 - 5 * y)"
  have "eventually (\<lambda>y. y \<in> {0.6 <..< 0.95}) (nhds (0.7::real))"
    by (rule eventually_nhds_in_open) simp_all
  then have "eventually (\<lambda>y. fst (bottleRadius rnd k y) = ?g y) (nhds 0.7)"
    by (rule eventually_mono) (simp add: radius_near_shoulder_end)
  moreover have "isCont ?g 0.7"
    by (intro continuous_intros)
  ultimately show ?thesis
    by (simp only: isCont_cong)
qed

text \<open>At the lip the profile steps from \<open>0.3\<close> to \<open>0.35\<close>: heights just below
  \<open>0.95\<close> keep the distance \<open>0.05\<close> from the value at \<open>0.95\<close>.\<close>

lemma radius_jump_lip: "\<not> isCont (\<lambda>y. fst (bottleRadius rnd k y)) 0.95"
proof
  let ?f = "\<lambda>y. fst (bottleRadius rnd k y)"
  assume "isCont ?f 0.95"
  then have lim: "?f \<midarrow>0.95\<rightarrow> ?f 0.95"
    by (simp only: isCont_def)
  have "\<exists>s>0. \<forall>y. y \<noteq> 0.95 \<and> norm (y - 0.95) < s \<longrightarrow> norm (?f y - ?f 0.95) < 0.05"
    by (rule LIM_D [OF lim]) simp
  then obtain s where s: "s > 0"
    and near: "\<And>y. y \<noteq> 0.95 \<Longrightarrow> norm (y - 0.95) < s \<Longrightarrow> norm (?f y - ?f 0.95) < 0.05"
    by blast
  define y where "y = 0.95 - min (s / 2) 0.1"
  have y: "0.7 \<le> y" "y < 0.95" "norm (y - 0.95) < s"
    using s by (auto simp: y_def min_def)
  then have "?f y = 0.3"
    by (simp add: bottleRadius_def)
  moreover have "?f 0.95 = 0.35"
    by (simp add: bottleRadius_def)
  ultimately have "norm (?f y - ?f 0.95) = 0.05"
    by simp
  with near [of y] y show False
    by simp
qed

text \<open>
  Claim C1, as the specification states it, asks for a radius that is continuous across
  every breakpoint.  The profile of \<open>generateBottle\<close> is not continuous at \<open>0.95\<close>,
  whatever the random draws are; here for the draws that are all \<open>0\<close>.
\<close>

theorem bottle_radius_continuity_counterexample:
  "\<not> isCont (\<lambda>y. fst (bottleRadius (\<lambda>k. 0) 0 y)) 0.95"
  by (rule radius_jump_lip)

text \<open>
  Claim C1, amended.  The radius of \<open>generateBottle\<close> at the normalised height \<open>y\<close>
  follows the table: \<open>0.8\<close> at \<open>y = 0.6\<close>, \<open>0.3\<close> at \<open>y = 0.7\<close>, \<open>0.35\<close> at
  \<open>y = 0.95\<close>; \<open>0.8\<close> for \<open>0.05 \<le> y < 0.6\<close>, the linear interpolation from \<open>0.8\<close>
  to \<open>0.3\<close> for \<open>0.6 \<le> y < 0.7\<close>, \<open>0.3\<close> for \<open>0.7 \<le> y < 0.95\<close> and \<open>0.35\<close> for
  \<open>y \<ge> 0.95\<close>.  It is continuous across the breakpoints \<open>0.6\<close> and \<open>0.7\<close>, and it
  steps from \<open>0.3\<close> to \<open>0.35\<close> at \<open>0.95\<close>.
\<close>

theorem bottle_radius_profile:
  "fst (bottleRadius rnd k 0.6) = 0.8 \<and>
   fst (bottleRadius rnd k 0.7) = 0.3 \<and>
   fst (bottleRadius rnd k 0.95) = 0.35 \<and>
   (0.05 \<le> y \<and> y < 0.6 \<longrightarrow> fst (bottleRadius rnd k y) = 0.8) \<and>
   (0.6 \<le> y \<and> y < 0.7 \<longrightarrow>
      fst (bottleRadius rnd k y) = 0.8 + (0.3 - 0.8) * ((y - 0.6) / (0.7 - 0.6))) \<and>
   (0.7 \<le> y \<and> y < 0.95 \<longrightarrow> fst (bottleRadius rnd k y) = 0.3) \<and>
   (0.95 \<le> y \<longrightarrow> fst (bottleRadius rnd k y) = 0.35) \<and>
   isCont (\<lambda>y. fst (bottleRadius rnd k y)) 0.6 \<and>
   isCont (\<lambda>y. fst (bottleRadius rnd k y)) 0.7 \<and>
   \<not> isCont (\<lambda>y. fst (bottleRadius rnd k y)) 0.95"
proof -
  have "0.6 \<le> y \<and> y < 0.7 \<longrightarrow>
      fst (bottleRadius rnd k y) = 0.8 + (0.3 - 0.8) * ((y - 0.6) / (0.7 - 0.6))"
    by (simp add: bottleRadius_def Let_def field_simps)
  moreover have "fst (bottleRadius rnd k 0.6) = 0.8"
    by (simp add: bottleRadius_def)
  moreover have "fst (bottleRadius rnd k 0.7) = 0.3"
    by (simp add: bottleRadius_def)
  moreover have "fst (bottleRadius rnd k 0.95) = 0.35"
    by (simp add: bottleRadius_def)
  moreover have "0.05 \<le> y \<and> y < 0.6 \<longrightarrow> fst (bottleRadius rnd k y) = 0.8"
    by (simp add: bottleRadius_def)
  moreover have "0.7 \<le> y \<and> y < 0.95 \<longrightarrow> fst (bottleRadius rnd k y) = 0.3"
    by (simp add: bottleRadius_def)
  moreover have "0.95 \<le> y \<longrightarrow> fst (bottleRadius rnd k y) = 0.35"
    by (simp add: bottleRadius_def)
  ultimately show ?thesis
    using isCont_radius_shoulder_start [of rnd k] isCont_radius_shoulder_end [of rnd k]
      radius_jump_lip [of rnd k]
    by blast
qed

theorem bottle_radius_profile_witness:
  "fst (bottleRadius (\<lambda>k. 0) 0 0.3) = 0.8 \<and>
   fst (bottleRadius (\<lambda>k. 0) 0 0.65) = 0.55 \<and>
   fst (bottleRadius (\<lambda>k. 0) 0 0.8) = 0.3 \<and>
   fst (bottleRadius (\<lambda>k. 0) 0 1.1) = 0.35"
  using bottle_radius_profile [of "\<lambda>k. 0" 0 "0.3"]
    bottle_radius_profile [of "\<lambda>k. 0" 0 "0.65"]
    bottle_radius_profile [of "\<lambda>k. 0" 0 "0.8"]
    bottle_radius_profile [of "\<lambda>k. 0" 0 "1.1"]
  by simp

subsection \<open>The points of the bottle\<close>

lemma set_bottle_loop:
  "set (bottle_loop count rnd i k points) \<subseteq> set points \<union> range (\<lambda>j. fst (bottlePoint rnd j))"
proof (induction count rnd i k points rule: bottle_loop.induct)
  case (1 count rnd i k points)
  show ?case
  proof (cases "real i < count")
    case True
    obtain p k' where pk: "bottlePoint rnd k = (p, k')"
      by (cases "bottlePoint rnd k")
    then have "p \<in> range (\<lambda>j. fst (bottlePoint rnd j))"
      by (metis fst_conv rangeI)
    with True pk "1.IH" [OF True pk [symmetric]] show ?thesis
      by (subst bottle_loop.simps) auto
  next
    case False
    then show ?thesis
      by (subst bottle_loop.simps) simp
  qed
qed

lemma bottleHeight_draw: "bottleHeight rnd k = 1.2 * rnd k"
  by (simp add: bottleHeight_def Let_def field_simps)

lemma fst_bottlePoint:
  "fst (bottlePoint rnd k) =
     \<lparr> px = fst (bottleRadius rnd (k + 2) (bottleHeight rnd k)) * cos (rnd (k + 1) * 2 * pi),
       py = 3.5 * bottleHeight rnd k - 1.5,
       pz = fst (bottleRadius rnd (k + 2) (bottleHeight rnd k)) * sin (rnd (k + 1) * 2 * pi) \<rparr>"
  by (simp add: bottlePoint_def Let_def split_beta)

lemma generateBottle_half:
  "generateBottle 1 (\<lambda>k. 1 / 2) = [\<lparr> px = - (4 / 5), py = 3 / 5, pz = 0 \<rparr>]"
  by (simp add: generateBottle_def bottle_loop.simps bottlePoint_def bottleHeight_def
      bottleRadius_def Let_def)

lemma generateBottle_high:
  "generateBottle 1 (\<lambda>k. 9 / 10) =
     [\<lparr> px = 7 / 20 * cos (9 / 5 * pi), py = 57 / 25, pz = 7 / 20 * sin (9 / 5 * pi) \<rparr>]"
  by (simp add: generateBottle_def bottle_loop.simps bottlePoint_def bottleHeight_def
      bottleRadius_def Let_def)

text \<open>
  Claim C8, as the specification states it, puts the normalised height \<open>y\<close> in
  \<open>[0, 1]\<close>.  With the height draw \<open>0.9\<close> the height is \<open>1.08\<close>, and the point that
  \<open>generateBottle\<close> emits has no height in \<open>[0, 1]\<close> behind its second coordinate.
\<close>

theorem bottle_height_counterexample:
  "unit_draws (\<lambda>k. 9 / 10) \<and> bottleHeight (\<lambda>k. 9 / 10) 0 = 27 / 25 \<and>
   (\<exists>p \<in> set (generateBottle 1 (\<lambda>k. 9 / 10)).
      \<not> (\<exists>y. 0 \<le> y \<and> y \<le> 1 \<and> py p = 3.5 * y - 1.5))"
  by (simp add: generateBottle_high unit_draws_def bottleHeight_def)

text \<open>
  Claim C8, amended.  For every point that \<open>generateBottle\<close> produces, the normalised
  height \<open>y\<close> that keys the radius profile is \<open>1.2\<close> times the height draw, so it lies
  in \<open>[0, 1.2)\<close>; the angle \<open>\<theta>\<close> is \<open>2\<pi>\<close> times the angle draw, so it lies in
  \<open>[0, 2\<pi>)\<close>; and the point is \<open>(r cos \<theta>, 3.5 y - 1.5, r sin \<theta>)\<close> for the radius
  \<open>r\<close> of the profile at \<open>y\<close>.
\<close>

theorem bottle_points_shape:
  assumes "unit_draws rnd" and "p \<in> set (generateBottle count rnd)"
  shows "\<exists>k. bottleHeight rnd k = 1.2 * rnd k \<and>
             0 \<le> bottleHeight rnd k \<and> bottleHeight rnd k < 1.2 \<and>
             0 \<le> rnd (k + 1) * 2 * pi \<and> rnd (k + 1) * 2 * pi < 2 * pi \<and>
             p = \<lparr> px = fst (bottleRadius rnd (k + 2) (bottleHeight rnd k)) * cos (rnd (k + 1) * 2 * pi),
                   py = 3.5 * bottleHeight rnd k - 1.5,
                   pz = fst (bottleRadius rnd (k + 2) (bottleHeight rnd k)) * sin (rnd (k + 1) * 2 * pi) \<rparr>"
proof -
  from assms(2) obtain k where p: "p = fst (bottlePoint rnd k)"
    using set_bottle_loop [of count rnd 0 0 "[]"] by (auto simp: generateBottle_def)
  from assms(1) have u: "0 \<le> rnd k" "rnd k < 1" "0 \<le> rnd (k + 1)" "rnd (k + 1) < 1"
    by (simp_all add: unit_draws_def)
  have "0 \<le> bottleHeight rnd k" "bottleHeight rnd k < 1.2"
    using u by (simp_all add: bottleHeight_draw)
  moreover have "0 \<le> rnd (k + 1) * 2 * pi" "rnd (k + 1) * 2 * pi < 2 * pi"
    using u by simp_all
  ultimately show ?thesis
    using p fst_bottlePoint [of rnd k] bottleHeight_draw [of rnd k] by blast
qed

theorem bottle_points_shape_witness:
  "unit_draws (\<lambda>k. 1 / 2) \<and>
   \<lparr> px = - (4 / 5), py = 3 / 5, pz = 0 \<rparr> \<in> set (generateBottle 1 (\<lambda>k. 1 / 2)) \<and>
   (\<exists>k. bottleHeight (\<lambda>k. 1 / 2) k < 1.2 \<and>
        \<lparr> px = - (4 / 5), py = 3 / 5, pz = 0 \<rparr> =
        \<lparr> px = fst (bottleRadius (\<lambda>k. 1 / 2) (k + 2) (bottleHeight (\<lambda>k. 1 / 2) k)) * cos (1 / 2 * 2 * pi),
          py = 3.5 * bottleHeight (\<lambda>k. 1 / 2) k - 1.5,
          pz = fst (bottleRadius (\<lambda>k. 1 / 2) (k + 2) (bottleHeight (\<lambda>k. 1 / 2) k)) * sin (1 / 2 * 2 * pi) \<rparr>)"
proof -
  have u: "unit_draws (\<lambda>k. 1 / 2)"
    by (simp add: unit_draws_def)
  have mem: "\<lparr> px = - (4 / 5), py = 3 / 5, pz = 0 \<rparr> \<in> set (generateBottle 1 (\<lambda>k. 1 / 2))"
    by (simp add: generateBottle_half)
  from bottle_points_shape [OF u mem] u mem show ?thesis
    by blast
qed

section \<open>Properties of the gesture extractor\<close>



lemma tipsForEach_total:
  "\<forall>idx \<in> set idxs. idx < length landmarks \<Longrightarrow>
     \<exists>s. tipsForEach landmarks wrist idxs acc = Inr s"
  by (induction idxs arbitrary: acc) auto


lemma handState_total:
  assumes "length landmarks > 20"
  shows "\<exists>g. handState landmarks = Inr g"
proof -
  from assms obtain wrist rest where l: "landmarks = wrist # rest"
    by (cases landmarks) auto
  have "\<forall>idx \<in> set tips. idx < length landmarks"
    using assms by (simp add: tips_def)
  then obtain s where "tipsForEach landmarks wrist tips 0 = Inr s"
    using tipsForEach_total by blast
  with l show ?thesis
    by (simp add: handState_def Let_def)
qed


lemma sample_tipDist:
  "tipDist \<lparr> lx = 1 / 2, ly = 1 / 2, lz = 0 \<rparr> \<lparr> lx = 63 / 100, ly = 19 / 25, lz = 13 / 50 \<rparr> = 39 / 100"
proof -
  have "sqrt (1521 / 10000) = 39 / 100"
    by (rule real_sqrt_unique) (simp_all add: power2_eq_square)
  then show ?thesis
    by (simp add: tipDist_def Let_def)
qed


lemma sample_average: "rescaleClamp (avgTipDistance sampleHand) = 4 / 5"
  by (simp add: rescaleClamp_def avgTipDistance_def sampleHand_def tips_def sample_tipDist Let_def)




section \<open>Properties of the particle simulation\<close>

lemma jitter_bound:
  fixes u :: real
  shows "0 \<le> u \<Longrightarrow> u < 1 \<Longrightarrow> \<bar>(u - 0.5) * 0.02\<bar> \<le> 0.01"
  by (auto simp add: abs_if)

text \<open>
  Claim C5.  In the per-frame update the raw target of particle \<open>i\<close> is
  \<open>targetPoints[i mod N]\<close> when the target set has \<open>N > 0\<close> points, read at an index
  that is always in bounds, and the origin when the set is empty; the target is the raw
  target plus a jitter of at most \<open>0.01\<close> in absolute value on each axis, each axis
  with a draw of its own.
\<close>

theorem particle_raw_target:
  "(targetPoints \<noteq> [] \<longrightarrow>
      targetIndex targetPoints i < length targetPoints \<and>
      rawTarget targetPoints i = targetPoints ! (i mod length targetPoints)) \<and>
   (targetPoints = [] \<longrightarrow> rawTarget targetPoints i = \<lparr> px = 0, py = 0, pz = 0 \<rparr>) \<and>
   (unit_draws rnd \<longrightarrow>
      \<bar>px (jitterTarget rnd k raw) - px raw\<bar> \<le> 0.01 \<and>
      \<bar>py (jitterTarget rnd k raw) - py raw\<bar> \<le> 0.01 \<and>
      \<bar>pz (jitterTarget rnd k raw) - pz raw\<bar> \<le> 0.01) \<and>
   jitterTarget rnd k raw =
     \<lparr> px = px raw + (rnd k - 0.5) * 0.02,
       py = py raw + (rnd (k + 1) - 0.5) * 0.02,
       pz = pz raw + (rnd (k + 2) - 0.5) * 0.02 \<rparr>"
proof -
  have "unit_draws rnd \<longrightarrow>
      \<bar>px (jitterTarget rnd k raw) - px raw\<bar> \<le> 0.01 \<and>
      \<bar>py (jitterTarget rnd k raw) - py raw\<bar> \<le> 0.01 \<and>
      \<bar>pz (jitterTarget rnd k raw) - pz raw\<bar> \<le> 0.01"
  proof
    assume u: "unit_draws rnd"
    have "0 \<le> rnd j \<and> rnd j < 1" for j
      using u by (simp add: unit_draws_def)
    from jitter_bound [of "rnd k"] jitter_bound [of "rnd (k + 1)"] jitter_bound [of "rnd (k + 2)"]
      this [of k] this [of "k + 1"] this [of "k + 2"]
    show "\<bar>px (jitterTarget rnd k raw) - px raw\<bar> \<le> 0.01 \<and>
      \<bar>py (jitterTarget rnd k raw) - py raw\<bar> \<le> 0.01 \<and>
      \<bar>pz (jitterTarget rnd k raw) - pz raw\<bar> \<le> 0.01"
      by (simp add: jitterTarget_def Let_def)
  qed
  then show ?thesis
    by (simp add: targetIndex_def rawTarget_def jitterTarget_def Let_def)
qed

theorem particle_raw_target_witness:
  "targetIndex [\<lparr> px = 1, py = 2, pz = 3 \<rparr>, \<lparr> px = 4, py = 5, pz = 6 \<rparr>] 5 < 2 \<and>
   rawTarget [\<lparr> px = 1, py = 2, pz = 3 \<rparr>, \<lparr> px = 4, py = 5, pz = 6 \<rparr>] 5 = \<lparr> px = 4, py = 5, pz = 6 \<rparr> \<and>
   rawTarget [] 5 = \<lparr> px = 0, py = 0, pz = 0 \<rparr> \<and>
   unit_draws (\<lambda>k. 0) \<and>
   \<bar>px (jitterTarget (\<lambda>k. 0) 15 \<lparr> px = 4, py = 5, pz = 6 \<rparr>) - 4\<bar> \<le> 0.01"
proof -
  have u: "unit_draws (\<lambda>k. 0)"
    by (simp add: unit_draws_def)
  have m: "(5::nat) mod Suc (Suc 0) = Suc 0"
    by presburger
  show ?thesis
    using u particle_raw_target [of "[\<lparr> px = 1, py = 2, pz = 3 \<rparr>, \<lparr> px = 4, py = 5, pz = 6 \<rparr>]" 5
                                   "\<lambda>k. 0" 15 "\<lparr> px = 4, py = 5, pz = 6 \<rparr>"]
      particle_raw_target [of "[]" 5 "\<lambda>k. 0" 15 "\<lparr> px = 4, py = 5, pz = 6 \<rparr>"]
    by (simp add: m)
qed

lemma particleGoal_idle:
  "particleGoal targetPoints handOpenness False time rnd k i =
     scaledTarget (jitterTarget rnd k (rawTarget targetPoints i)) (breathe False time)"
  by (simp add: particleGoal_def activeOpenness_def explosionForce_def Let_def split_beta)

text \<open>
  Claim C6.  Without a detected hand the particle simulation works with the intensity
  \<open>0\<close> (its goal is the scaled, jittered target alone) and the audio mapper with the
  intensity \<open>0.1\<close>; with a detected hand both use the openness they are given.  The two
  defaults differ.
\<close>

theorem idle_intensities:
  "activeOpenness False handOpenness = 0 \<and>
   audioIntensity False handOpenness = 0.1 \<and>
   activeOpenness True handOpenness = handOpenness \<and>
   audioIntensity True handOpenness = handOpenness \<and>
   activeOpenness False handOpenness \<noteq> audioIntensity False handOpenness \<and>
   particleGoal targetPoints handOpenness False time rnd k i =
     scaledTarget (jitterTarget rnd k (rawTarget targetPoints i)) (breathe False time) \<and>
   modulateSound True False handOpenness = Some ((targetFreq 0.1, 0.1), (targetVol 0.1, 0.1))"
  by (simp add: activeOpenness_def audioIntensity_def particleGoal_idle modulateSound_def Let_def)

lemma lerpAt_fixed: "lerpAt ps j (ps ! j) = ps"
  by (simp add: lerpAt_def)

lemma moveParticle_fixed:
  "moveParticle ps i (ps ! (i * 3), ps ! (i * 3 + 1), ps ! (i * 3 + 2)) = ps"
  by (simp add: moveParticle_def Let_def lerpAt_fixed)

text \<open>
  Claim C7.  The update of a position coordinate is
  \<open>position += (target - position) * 0.06\<close>: the update of particle \<open>i\<close> applies it to
  the coordinates \<open>3 i\<close>, \<open>3 i + 1\<close> and \<open>3 i + 2\<close> of the buffer, one after the
  other and each towards its own target, and the frame loop applies that update to every
  particle below \<open>PARTICLE_COUNT\<close>, with the goal computed for it, and to no other.  A
  coordinate that equals its target is left unchanged, as is a particle whose three
  coordinates equal their targets.
\<close>

theorem damped_step_idempotent:
  "lerpAt ps j t = ps[j := ps ! j + (t - ps ! j) * 0.06] \<and>
   (j < length ps \<and> ps ! j = t \<longrightarrow> lerpAt ps j t = ps) \<and>
   (i * 3 + 2 < length ps \<and> ps ! (i * 3) = tx \<and> ps ! (i * 3 + 1) = ty \<and> ps ! (i * 3 + 2) = tz
      \<longrightarrow> moveParticle ps i (tx, ty, tz) = ps) \<and>
   moveParticle ps i (tx, ty, tz) =
     lerpAt (lerpAt (lerpAt ps (i * 3) tx) (i * 3 + 1) ty) (i * 3 + 2) tz \<and>
   moveParticle ps i (tx, ty, tz) =
     ps[i * 3 := ps ! (i * 3) + (tx - ps ! (i * 3)) * 0.06,
        i * 3 + 1 := ps ! (i * 3 + 1) + (ty - ps ! (i * 3 + 1)) * 0.06,
        i * 3 + 2 := ps ! (i * 3 + 2) + (tz - ps ! (i * 3 + 2)) * 0.06] \<and>
   (i < PARTICLE_COUNT \<longrightarrow>
      particles_loop targetPoints handOpenness handDetected time rnd i ps =
        particles_loop targetPoints handOpenness handDetected time rnd (Suc i)
          (moveParticle ps i
             (particleGoal targetPoints handOpenness handDetected time rnd (3 * i) i))) \<and>
   (\<not> i < PARTICLE_COUNT \<longrightarrow>
      particles_loop targetPoints handOpenness handDetected time rnd i ps = ps)"
proof -
  have step: "lerpAt ps j t = ps[j := ps ! j + (t - ps ! j) * 0.06]"
    by (simp add: lerpAt_def DAMPING_FACTOR_def)
  have fixed: "j < length ps \<and> ps ! j = t \<longrightarrow> lerpAt ps j t = ps"
    using lerpAt_fixed [of ps j] by auto
  have fixed3: "i * 3 + 2 < length ps \<and> ps ! (i * 3) = tx \<and> ps ! (i * 3 + 1) = ty \<and>
      ps ! (i * 3 + 2) = tz \<longrightarrow> moveParticle ps i (tx, ty, tz) = ps"
    using moveParticle_fixed [of ps i] by auto
  have comp: "moveParticle ps i (tx, ty, tz) =
     lerpAt (lerpAt (lerpAt ps (i * 3) tx) (i * 3 + 1) ty) (i * 3 + 2) tz"
    by (simp add: moveParticle_def Let_def)
  have expl: "moveParticle ps i (tx, ty, tz) =
     ps[i * 3 := ps ! (i * 3) + (tx - ps ! (i * 3)) * 0.06,
        i * 3 + 1 := ps ! (i * 3 + 1) + (ty - ps ! (i * 3 + 1)) * 0.06,
        i * 3 + 2 := ps ! (i * 3 + 2) + (tz - ps ! (i * 3 + 2)) * 0.06]"
    by (simp add: moveParticle_def Let_def lerpAt_def DAMPING_FACTOR_def)
  have loop: "i < PARTICLE_COUNT \<longrightarrow>
      particles_loop targetPoints handOpenness handDetected time rnd i ps =
        particles_loop targetPoints handOpenness handDetected time rnd (Suc i)
          (moveParticle ps i
             (particleGoal targetPoints handOpenness handDetected time rnd (3 * i) i))"
    by (subst particles_loop.simps) simp
  have stop: "\<not> i < PARTICLE_COUNT \<longrightarrow>
      particles_loop targetPoints handOpenness handDetected time rnd i ps = ps"
    by (subst particles_loop.simps) simp
  from step fixed fixed3 comp expl loop stop show ?thesis
    by (intro conjI)
qed

theorem damped_step_idempotent_witness:
  "lerpAt [0, 1, 2, 3, 4, 5] 4 4 = [0, 1, 2, 3, 4, 5] \<and>
   moveParticle [0, 1, 2, 3, 4, 5] 1 (3, 4, 5) = [0, 1, 2, 3, 4, 5] \<and>
   lerpAt [0, 1, 2] 1 101 = [0, 7, 2] \<and>
   moveParticle [0, 1, 2, 3, 4, 5] 1 (103, 104, 105) = [0, 1, 2, 9, 10, 11] \<and>
   (1 :: nat) < PARTICLE_COUNT \<and>
   particles_loop [] 0 False 0 (\<lambda>k. 1 / 2) 1 [0, 1, 2, 3, 4, 5] =
     particles_loop [] 0 False 0 (\<lambda>k. 1 / 2) (Suc 1)
       (moveParticle [0, 1, 2, 3, 4, 5] 1 (particleGoal [] 0 False 0 (\<lambda>k. 1 / 2) (3 * 1) 1)) \<and>
   \<not> (4000 :: nat) < PARTICLE_COUNT \<and>
   particles_loop [] 0 False 0 (\<lambda>k. 1 / 2) 4000 [0, 1, 2] = [0, 1, 2]"
proof -
  have c: "(1 :: nat) < PARTICLE_COUNT" "\<not> (4000 :: nat) < PARTICLE_COUNT"
    by (simp_all add: PARTICLE_COUNT_def)
  have a: "lerpAt [0, 1, 2, 3, 4, 5] 4 4 = [0, 1, 2, 3, 4, 5] \<and>
      moveParticle [0, 1, 2, 3, 4, 5] 1 (3, 4, 5) = [0, 1, 2, 3, 4, 5]"
    using damped_step_idempotent [of "[0, 1, 2, 3, 4, 5]" 4 4 1 3 4 5]
    by (simp add: eval_nat_numeral)
  have b: "lerpAt [0, 1, 2] 1 101 = [0, 7, 2]"
    using damped_step_idempotent [of "[0, 1, 2]" 1 101]
    by (simp add: eval_nat_numeral)
  have m: "moveParticle [0, 1, 2, 3, 4, 5] 1 (103, 104, 105) = [0, 1, 2, 9, 10, 11]"
    using damped_step_idempotent [where ps = "[0, 1, 2, 3, 4, 5]" and i = 1 and tx = 103
        and ty = 104 and tz = 105,
        THEN conjunct2, THEN conjunct2, THEN conjunct2, THEN conjunct2, THEN conjunct1]
    by (simp add: eval_nat_numeral)
  have l: "particles_loop [] 0 False 0 (\<lambda>k. 1 / 2) 1 [0, 1, 2, 3, 4, 5] =
     particles_loop [] 0 False 0 (\<lambda>k. 1 / 2) (Suc 1)
       (moveParticle [0, 1, 2, 3, 4, 5] 1 (particleGoal [] 0 False 0 (\<lambda>k. 1 / 2) (3 * 1) 1))"
    using c(1) damped_step_idempotent [of "[0, 1, 2, 3, 4, 5]" 4 4 1 3 4 5 "[]" 0 False 0 "\<lambda>k. 1 / 2"]
    by blast
  have e: "particles_loop [] 0 False 0 (\<lambda>k. 1 / 2) 4000 [0, 1, 2] = [0, 1, 2]"
    using c(2) damped_step_idempotent [of "[0, 1, 2]" 1 101 4000 0 0 0 "[]" 0 False 0 "\<lambda>k. 1 / 2"]
    by blast
  from a b m l e c show ?thesis
    by (intro conjI) simp_all
qed

text \<open>
  Claim C10.  The denominator \<open>sqrt (tx\<^sup>2 + ty\<^sup>2 + tz\<^sup>2) + 0.001\<close> that normalises the
  direction of the explosion is strictly positive for every scaled target, in particular
  for the one of every particle in every frame, and it is
  \<open>0.001\<close> when the scaled target is the origin, so the update never divides by zero.
\<close>

theorem explosion_denominator_positive:
  "0 < centreLen t \<and> 0.001 \<le> centreLen t \<and>
   0 < centreLen (scaledTarget (jitterTarget rnd k (rawTarget targetPoints i))
                    (breathe handDetected time)) \<and>
   centreLen (scaledTarget \<lparr> px = 0, py = 0, pz = 0 \<rparr> br) = 0.001"
proof -
  have low: "0.001 \<le> centreLen u" for u
  proof -
    obtain tx ty tz where u: "u = (tx, ty, tz)"
      by (cases u)
    have "0 \<le> sqrt (tx * tx + ty * ty + tz * tz)"
      by simp
    then show ?thesis
      by (simp add: centreLen_def u)
  qed
  have "0.001 \<le> centreLen t"
    by (rule low)
  moreover have "0 < centreLen (scaledTarget (jitterTarget rnd k (rawTarget targetPoints i))
                    (breathe handDetected time))"
    using low [of "scaledTarget (jitterTarget rnd k (rawTarget targetPoints i))
                    (breathe handDetected time)"] by simp
  moreover have "centreLen (scaledTarget \<lparr> px = 0, py = 0, pz = 0 \<rparr> br) = 0.001"
    by (simp add: centreLen_def scaledTarget_def Let_def)
  ultimately show ?thesis
    by simp
qed

section \<open>Properties of the audio parameter mapper\<close>

text \<open>
  Claim C3.  For every intensity the mapper computes the target cutoff
  \<open>150 + intensity\<^sup>2 * (6000 - 150)\<close> and the target gain
  \<open>0.3 + intensity * (0.6 - 0.3)\<close>, which are \<open>150\<close> and \<open>0.3\<close> at intensity \<open>0\<close>
  and \<open>6000\<close> and \<open>0.6\<close> at intensity \<open>1\<close>; these are the values towards which
  the filter frequency and the master gain are set to move, with time constant \<open>0.1\<close>.
\<close>

theorem audio_targets:
  "targetFreq intensity = 150 + intensity\<^sup>2 * (6000 - 150) \<and>
   targetVol intensity = 0.3 + intensity * (0.6 - 0.3) \<and>
   targetFreq 0 = 150 \<and> targetVol 0 = 0.3 \<and>
   targetFreq 1 = 6000 \<and> targetVol 1 = 0.6 \<and>
   modulateSound True handDetected handOpenness =
     Some ((targetFreq (audioIntensity handDetected handOpenness), 0.1),
           (targetVol (audioIntensity handDetected handOpenness), 0.1))"
  by (simp add: targetFreq_def targetVol_def modulateSound_def Let_def)

section \<open>Properties of the remote shape generation\<close>

lemma callModel_failed:
  assumes "callFailed parse outcome"
  shows "\<exists>e. callModel emptyMsg parse outcome = Inl e"
  using assms
  by (auto simp: callFailed_def callModel_def split: remote.splits option.splits)

lemma callModel_failed_error:
  assumes "callFailed parse outcome" and "outcome \<noteq> Rejected (Error msg)" and "msg \<noteq> emptyMsg"
  shows "callModel emptyMsg parse outcome \<noteq> Inl (Error msg)"
  using assms
  by (auto simp: callFailed_def callModel_def split: remote.splits option.splits)

lemma callModel_answered:
  assumes "\<not> callFailed parse outcome"
  shows "\<exists>jsonText parsed v. outcome = Responded (Some jsonText) \<and> parse jsonText = Some parsed \<and>
           pointsOf parsed = Inr v \<and> callModel emptyMsg parse outcome = Inr (pointsOrEmpty v)"
proof -
  from assms obtain jsonText parsed where o: "outcome = Responded (Some jsonText)"
    and t: "jsonText \<noteq> []" and p: "parse jsonText = Some parsed" and n: "parsed \<noteq> JNull"
    by (auto simp: callFailed_def split: remote.splits option.splits)
  from n obtain v where v: "pointsOf parsed = Inr v"
    by (cases parsed) auto
  with o t p show ?thesis
    by (simp add: callModel_def)
qed

text \<open>
  Claim C4, as the specification states it, rules out an empty point set for a missing
  credential and for a malformed reply.  With a credential and the reply \<^verbatim>\<open>{}\<close>, which
  lacks the required member \<^verbatim>\<open>points\<close>, \<open>generateShapePoints\<close> returns the empty
  list; and the third version of the function returns the empty list when the
  credential is missing.
\<close>

theorem shape_points_silent_empty_counterexample:
  "\<not> falsyKey (Some ''k'') \<and> sampleParse ''{}'' = Some (JObj []) \<and>
   generateShapePoints (Some ''k'') sampleParse (Responded (Some ''{}'')) = Inr (JArr []) \<and>
   generateShapePoints_getAI (Some ''k'') sampleParse (Responded (Some ''{}'')) = Inr (JArr []) \<and>
   generateShapePoints_warn None sampleParse (Rejected (Thrown ''offline'')) = Inr (JArr [])"
  by (simp add: generateShapePoints_def generateShapePoints_getAI_def generateShapePoints_warn_def
      callModel_def falsyKey_def sampleParse_def pointsOrEmpty_def)

text \<open>
  Claim C4, amended.  In the two versions of \<open>generateShapePoints\<close> that throw on a
  missing credential, a missing or empty credential raises the missing-credential error.
  With a credential, a failed call (the collaborator throws, the response has no text or
  an empty one, the text is not JSON, or it is \<^verbatim>\<open>null\<close>) raises an error in every
  version, and that error is not the missing-credential error unless the collaborator
  threw that very error.  Any other reply is answered with its truthy member
  \<^verbatim>\<open>points\<close>, or with the empty list when that member is absent or falsy.  The third
  version returns the empty list when the credential is missing.
\<close>

theorem shape_points_errors:
  "(falsyKey apiKey \<longrightarrow>
      generateShapePoints apiKey parse outcome = Inl (Error ''API_KEY_MISSING'') \<and>
      generateShapePoints_getAI apiKey parse outcome =
        Inl (Error ''API Key is missing. Please configure your environment variables.'') \<and>
      generateShapePoints_warn apiKey parse outcome = Inr (JArr [])) \<and>
   (\<not> falsyKey apiKey \<and> callFailed parse outcome \<longrightarrow>
      (\<exists>e. generateShapePoints apiKey parse outcome = Inl e) \<and>
      (\<exists>e. generateShapePoints_getAI apiKey parse outcome = Inl e) \<and>
      (\<exists>e. generateShapePoints_warn apiKey parse outcome = Inl e) \<and>
      (outcome \<noteq> Rejected (Error ''API_KEY_MISSING'') \<longrightarrow>
         generateShapePoints apiKey parse outcome \<noteq> Inl (Error ''API_KEY_MISSING'')) \<and>
      (outcome \<noteq> Rejected (Error ''API Key is missing. Please configure your environment variables.'') \<longrightarrow>
         generateShapePoints_getAI apiKey parse outcome \<noteq>
           Inl (Error ''API Key is missing. Please configure your environment variables.''))) \<and>
   (\<not> falsyKey apiKey \<and> \<not> callFailed parse outcome \<longrightarrow>
      (\<exists>jsonText parsed v. outcome = Responded (Some jsonText) \<and> parse jsonText = Some parsed \<and>
         pointsOf parsed = Inr v \<and>
         generateShapePoints apiKey parse outcome = Inr (pointsOrEmpty v) \<and>
         generateShapePoints_getAI apiKey parse outcome = Inr (pointsOrEmpty v) \<and>
         generateShapePoints_warn apiKey parse outcome = Inr (pointsOrEmpty v))) \<and>
   pointsOrEmpty None = JArr [] \<and>
   (truthy j \<longrightarrow> pointsOrEmpty (Some j) = j) \<and>
   (\<not> truthy j \<longrightarrow> pointsOrEmpty (Some j) = JArr [])"
proof (intro conjI impI)
  assume "\<not> falsyKey apiKey \<and> \<not> callFailed parse outcome"
  then have k: "\<not> falsyKey apiKey" and c: "\<not> callFailed parse outcome"
    by simp_all
  from c obtain jsonText parsed v where o: "outcome = Responded (Some jsonText)"
    and t: "jsonText \<noteq> []" and p: "parse jsonText = Some parsed" and v: "pointsOf parsed = Inr v"
    using callModel_answered [OF c, of "[]"]
    by (auto simp: callFailed_def split: remote.splits option.splits)
  with k show "\<exists>jsonText parsed v. outcome = Responded (Some jsonText) \<and> parse jsonText = Some parsed \<and>
         pointsOf parsed = Inr v \<and>
         generateShapePoints apiKey parse outcome = Inr (pointsOrEmpty v) \<and>
         generateShapePoints_getAI apiKey parse outcome = Inr (pointsOrEmpty v) \<and>
         generateShapePoints_warn apiKey parse outcome = Inr (pointsOrEmpty v)"
    by (simp add: generateShapePoints_def generateShapePoints_getAI_def
        generateShapePoints_warn_def callModel_def)
qed (auto simp: generateShapePoints_def generateShapePoints_getAI_def
        generateShapePoints_warn_def callModel_failed callModel_failed_error pointsOrEmpty_def)

theorem shape_points_errors_witness:
  "falsyKey None \<and>
   generateShapePoints None sampleParse (Responded (Some ''{}'')) = Inl (Error ''API_KEY_MISSING'') \<and>
   \<not> falsyKey (Some ''k'') \<and> callFailed sampleParse (Responded (Some ''null'')) \<and>
   (\<exists>e. generateShapePoints (Some ''k'') sampleParse (Responded (Some ''null'')) = Inl e) \<and>
   generateShapePoints (Some ''k'') sampleParse (Responded (Some ''null'')) \<noteq>
     Inl (Error ''API_KEY_MISSING'') \<and>
   \<not> callFailed sampleParse (Responded (Some ''{}'')) \<and>
   (\<exists>v. generateShapePoints (Some ''k'') sampleParse (Responded (Some ''{}'')) = Inr (pointsOrEmpty v)) \<and>
   truthy (JArr [JNum 1]) \<and> pointsOrEmpty (Some (JArr [JNum 1])) = JArr [JNum 1] \<and>
   \<not> truthy (JNum 0) \<and> pointsOrEmpty (Some (JNum 0)) = JArr []"
proof -
  have k: "falsyKey None" "\<not> falsyKey (Some ''k'')"
    by (simp_all add: falsyKey_def)
  have f: "callFailed sampleParse (Responded (Some ''null''))"
    "\<not> callFailed sampleParse (Responded (Some ''{}''))"
    by (simp_all add: callFailed_def sampleParse_def)
  have r: "Responded (Some ''null'') \<noteq> Rejected (Error ''API_KEY_MISSING'')"
    by simp
  have t: "truthy (JArr [JNum 1])" "\<not> truthy (JNum 0)"
    by simp_all
  from k f r t
    shape_points_errors [of None sampleParse "Responded (Some ''{}'')" "JArr [JNum 1]"]
    shape_points_errors [of "Some ''k''" sampleParse "Responded (Some ''null'')" "JNum 0"]
    shape_points_errors [of "Some ''k''" sampleParse "Responded (Some ''{}'')" "JNum 0"]
  show ?thesis
    by blast
qed

end
